theory Spec2Isabelle
  imports Complex_Main
begin

section \<open>Calendar dates and their string forms\<close>

text \<open>
  The engine handles dates in three shapes: pandas Timestamps (persisted columns), the
  strings \<open>YYYYMMDD\<close> exchanged with the data source and \<open>YYYY-MM-DD\<close> used for
  point lookups of trade days. A date is a proleptic Gregorian triple; adding
  \<open>datetime.timedelta(n)\<close> for a non-negative whole number of days is \<open>n\<close> steps to
  the next calendar day. The upper bounds of the library types (year 9999 for
  \<open>datetime\<close>, 2262 for Timestamps) are outside the model.
\<close>

datatype date = Date (year: nat) (month: nat) (day: nat)

definition is_leap :: "nat \<Rightarrow> bool" where
  "is_leap y = (y mod 4 = 0 \<and> (y mod 100 \<noteq> 0 \<or> y mod 400 = 0))"

definition days_in_month :: "nat \<Rightarrow> nat \<Rightarrow> nat" where
  "days_in_month y m =
     (if m = 2 then (if is_leap y then 29 else 28)
      else if m = 4 \<or> m = 6 \<or> m = 9 \<or> m = 11 then 30 else 31)"

definition valid_date :: "date \<Rightarrow> bool" where
  "valid_date d = (1 \<le> year d \<and> 1 \<le> month d \<and> month d \<le> 12 \<and> 1 \<le> day d
                   \<and> day d \<le> days_in_month (year d) (month d))"

definition next_day :: "date \<Rightarrow> date" where
  "next_day d =
     (if day d < days_in_month (year d) (month d) then Date (year d) (month d) (day d + 1)
      else if month d < 12 then Date (year d) (month d + 1) 1
      else Date (year d + 1) 1 1)"

text \<open>\<open>d + datetime.timedelta(n)\<close>.\<close>

fun add_days :: "nat \<Rightarrow> date \<Rightarrow> date" where
  "add_days 0 d = d"
| "add_days (Suc n) d = add_days n (next_day d)"

definition date_less :: "date \<Rightarrow> date \<Rightarrow> bool" where
  "date_less a b = (year a < year b \<or> (year a = year b \<and>
                     (month a < month b \<or> (month a = month b \<and> day a < day b))))"

definition digit :: "nat \<Rightarrow> char" where
  "digit n = ''0123456789'' ! (n mod 10)"

definition pad2 :: "nat \<Rightarrow> string" where
  "pad2 n = [digit (n div 10), digit n]"

definition pad4 :: "nat \<Rightarrow> string" where
  "pad4 n = [digit (n div 1000), digit (n div 100), digit (n div 10), digit n]"

text \<open>\<open>strftime("%Y%m%d")\<close> and \<open>strftime("%Y-%m-%d")\<close>.\<close>

definition strftime_Ymd :: "date \<Rightarrow> string" where
  "strftime_Ymd d = pad4 (year d) @ pad2 (month d) @ pad2 (day d)"

definition strftime_iso :: "date \<Rightarrow> string" where
  "strftime_iso d = pad4 (year d) @ ''-'' @ pad2 (month d) @ ''-'' @ pad2 (day d)"

definition is_digit :: "char \<Rightarrow> bool" where
  "is_digit c = (c \<in> set ''0123456789'')"

definition num_of :: "string \<Rightarrow> nat" where
  "num_of s = foldl (\<lambda>a c. 10 * a + (of_char c - 48)) 0 s"

definition mk_date :: "nat \<Rightarrow> nat \<Rightarrow> nat \<Rightarrow> date option" where
  "mk_date y m d = (if valid_date (Date y m d) then Some (Date y m d) else None)"

text \<open>
  \<open>datetime.strptime(s, "%Y%m%d")\<close> on the strings the engine produces and receives:
  eight digits naming a real date. \<open>None\<close> stands for the \<open>ValueError\<close> of any other
  string.
\<close>

definition strptime_Ymd :: "string \<Rightarrow> date option" where
  "strptime_Ymd s =
     (if length s = 8 \<and> list_all is_digit s
      then mk_date (num_of (take 4 s)) (num_of (take 2 (drop 4 s))) (num_of (drop 6 s))
      else None)"

text \<open>\<open>datetime.strptime(s, "%Y-%m-%d")\<close>, on ten-character strings.\<close>

definition strptime_iso :: "string \<Rightarrow> date option" where
  "strptime_iso s =
     (if length s = 10 \<and> s ! 4 = CHR ''-'' \<and> s ! 7 = CHR ''-''
         \<and> list_all is_digit (take 4 s @ take 2 (drop 5 s) @ drop 8 s)
      then mk_date (num_of (take 4 s)) (num_of (take 2 (drop 5 s))) (num_of (drop 8 s))
      else None)"

text \<open>Python's \<open><\<close> on \<open>str\<close>: lexicographic by code point.\<close>

fun str_less :: "string \<Rightarrow> string \<Rightarrow> bool" where
  "str_less [] [] = False"
| "str_less [] (y # ys) = True"
| "str_less (x # xs) [] = False"
| "str_less (x # xs) (y # ys) =
     ((of_char x :: nat) < of_char y \<or> (x = y \<and> str_less xs ys))"

text \<open>\<open>str.lower()\<close> on ASCII.\<close>

definition lower_char :: "char \<Rightarrow> char" where
  "lower_char c =
     (case map_of (zip ''ABCDEFGHIJKLMNOPQRSTUVWXYZ'' ''abcdefghijklmnopqrstuvwxyz'') c of
        None \<Rightarrow> c | Some l \<Rightarrow> l)"

definition lower :: "string \<Rightarrow> string" where
  "lower s = map lower_char s"

section \<open>Python values, errors, tables\<close>

text \<open>
  The values a date-like variable of the engine can hold: \<open>None\<close>, a \<open>str\<close>, a pandas
  \<open>Timestamp\<close>, or \<open>NaT\<close>.
\<close>

datatype pyval = PyNone | Str string | Timestamp date | NaT

datatype error =
    LookupError string
  | UnboundLocalError string
  | IndexError
  | KeyError string
  | ValueError string
  | TypeError string
  | AssertionError string
  | NotImplementedError string
  | BackendError string
  | SourceError

datatype database = Chdb | Duckdb | Mongodb

text \<open>
  A persisted row: the instrument code, the date column of its table (\<open>None\<close> for a
  NULL/NaT cell) and the remaining columns, which the engine passes through untouched.
\<close>

datatype row = Row (ts_code: string) (rdate: "date option") (body: string)

text \<open>A table or collection: the name of its date column and its rows in insertion order.\<close>

datatype table = Table (date_col: string) (rows: "row list")

text \<open>
  \<open>SELECT ts_code, MAX(date_col) ... GROUP BY ts_code\<close> and the \<open>$group/$max\<close>
  aggregation: NULL cells are ignored, groups appear in order of first occurrence.
\<close>

definition max_date :: "date option list \<Rightarrow> date option" where
  "max_date ds = foldl (\<lambda>acc x. case x of None \<Rightarrow> acc
                                   | Some d \<Rightarrow> (case acc of None \<Rightarrow> Some d
                                        | Some a \<Rightarrow> if date_less a d then Some d else Some a))
                       None ds"

definition group_max :: "row list \<Rightarrow> (string \<times> date option) list" where
  "group_max rs =
     map (\<lambda>k. (k, max_date (map rdate (filter (\<lambda>r. ts_code r = k) rs))))
         (remdups (map ts_code rs))"

text \<open>
  \<open>DataFeedManager._get_table_date(table_name, latest=False)\<close>. The date column is
  \<open>ex_date\<close> for the table named \<open>stock_dividend\<close> and \<open>trade_date\<close> for every other
  name. There is no chdb branch, so \<open>query_str\<close> is unbound there. A missing table or
  column is an error of duckdb; mongodb aggregates a missing field to null.
\<close>

definition get_table_date ::
  "database \<Rightarrow> (string \<rightharpoonup> table) \<Rightarrow> string \<Rightarrow> error + (string \<times> pyval) list" where
  "get_table_date db tabs table_name =
     (let dcol = (if table_name = ''stock_dividend'' then ''ex_date'' else ''trade_date'') in
      case db of
        Chdb \<Rightarrow> Inl (UnboundLocalError ''query_str'')
      | Duckdb \<Rightarrow>
          (case tabs table_name of
             None \<Rightarrow> Inl (BackendError ''no such table'')
           | Some t \<Rightarrow>
               if date_col t \<noteq> dcol then Inl (BackendError ''no such column'')
               else Inr (map (\<lambda>(k, m). (k, case m of None \<Rightarrow> NaT | Some d \<Rightarrow> Timestamp d))
                             (group_max (rows t))))
      | Mongodb \<Rightarrow>
          (case tabs table_name of
             None \<Rightarrow> Inr []
           | Some t \<Rightarrow>
               if date_col t \<noteq> dcol then Inr (map (\<lambda>k. (k, PyNone)) (remdups (map ts_code (rows t))))
               else Inr (map (\<lambda>(k, m). (k, case m of None \<Rightarrow> PyNone | Some d \<Rightarrow> Timestamp d))
                             (group_max (rows t)))))"

text \<open>
  \<open>DataFeedManager._get_ticker_date(table_date, ticker, shift)\<close>. The row of the ticker
  is selected (\<open>.iloc[0]\<close> raises \<open>IndexError\<close> when there is none). Then two
  consecutive \<open>if\<close> statements follow, not an \<open>if/elif\<close>: the first turns a Timestamp
  into the string of the shifted date, and the second, which tests for \<open>str\<close>, sees
  that string and shifts it again. Any other value is returned as it is.
\<close>

definition get_ticker_date ::
  "database \<Rightarrow> (string \<times> pyval) list \<Rightarrow> string \<Rightarrow> nat \<Rightarrow> error + pyval" where
  "get_ticker_date db table_date tk shift =
     (if db = Chdb then Inl (UnboundLocalError ''ticker_date'')
      else case filter (\<lambda>r. fst r = tk) table_date of
          [] \<Rightarrow> Inl IndexError
        | r # _ \<Rightarrow>
            (let ticker_date = snd r;
                 ticker_date1 = (case ticker_date of
                                   Timestamp d \<Rightarrow> Str (strftime_Ymd (add_days shift d))
                                 | v \<Rightarrow> v)
             in case ticker_date1 of
                  Str s \<Rightarrow> (case strptime_Ymd s of
                              None \<Rightarrow> Inl (ValueError s)
                            | Some d \<Rightarrow> Inr (Str (strftime_Ymd (add_days shift d))))
                | v \<Rightarrow> Inr v))"

section \<open>The data source and its adapter (TSDataFeed)\<close>

text \<open>
  The tushare client is outside the repository. It is a parameter of the model: a function
  from the request to its outcome, which is an exception, \<open>None\<close>, or a frame whose
  date column holds \<open>YYYYMMDD\<close> strings (or nothing, for a dividend not yet executed).
  The same environment supplies the current date and the trading calendar, whose two
  operations are decided by the holiday tables of external libraries.
\<close>

datatype src_row = SrcRow (s_code: string) (s_date: "string option") (s_body: string)

datatype api_call =
    Pro_bar pyval pyval pyval string string
  | Stk_limit pyval pyval pyval
  | Daily_basic pyval pyval pyval
  | Dividend_q pyval
  | Suspend_d string
  | Stock_basic string

datatype api_result = Raises | RNone | Frame "src_row list"

record env =
  api :: "api_call \<Rightarrow> api_result"
  today :: date
  next_trade_day :: "pyval \<Rightarrow> error + pyval"
  get_trade_day :: "pyval \<Rightarrow> pyval \<Rightarrow> error + date list"

datatype log_entry = Info string | Warning string

text \<open>
  The observable state: the persisted tables, the log, the requests sent to the data
  source, and the frames handed to \<open>_insert_df_to_table\<close>, each in order.
\<close>

record world =
  tables :: "string \<rightharpoonup> table"
  logs :: "log_entry list"
  api_calls :: "api_call list"
  inserts :: "(string \<times> row list) list"

datatype feed = Feed (ticker: pyval) (START: pyval) (END: pyval) (TODAY: string)

text \<open>\<open>TSDataFeed.__init__\<close>.\<close>

definition TSDataFeed :: "env \<Rightarrow> pyval \<Rightarrow> pyval \<Rightarrow> pyval \<Rightarrow> feed" where
  "TSDataFeed e tk start_d end_d =
     Feed tk (if start_d = PyNone then Str ''20050101'' else start_d)
             (if end_d = PyNone then Str ''20231231'' else end_d)
             (strftime_Ymd (today e))"

text \<open>\<open>_check_validity\<close>, the same in the adapter and in the manager.\<close>

definition check_validity :: "'a list option \<Rightarrow> bool" where
  "check_validity data = (case data of None \<Rightarrow> False | Some xs \<Rightarrow> xs \<noteq> [])"

text \<open>
  \<open>pd.to_datetime\<close> on one cell of a date column: a missing cell becomes NaT, a string
  that is no date raises.
\<close>

definition to_datetime :: "string option \<Rightarrow> error + date option" where
  "to_datetime v =
     (case v of None \<Rightarrow> Inr None
      | Some s \<Rightarrow> (case strptime_Ymd s of None \<Rightarrow> Inl (ValueError s) | Some d \<Rightarrow> Inr (Some d)))"

fun convert_rows :: "src_row list \<Rightarrow> error + row list" where
  "convert_rows [] = Inr []"
| "convert_rows (r # rs) =
     (case to_datetime (s_date r) of
        Inl err \<Rightarrow> Inl err
      | Inr d \<Rightarrow> (case convert_rows rs of
                    Inl err \<Rightarrow> Inl err
                  | Inr rs' \<Rightarrow> Inr (Row (s_code r) d (s_body r) # rs')))"

text \<open>
  The tail shared by the price, limit, fundamental and suspension operations: return
  \<open>None\<close> for an invalid query, otherwise convert the date column.
\<close>

definition finish_query :: "api_result \<Rightarrow> error + row list option" where
  "finish_query r =
     (case r of
        Raises \<Rightarrow> Inl SourceError
      | RNone \<Rightarrow> Inr None
      | Frame q \<Rightarrow>
          if \<not> check_validity (Some q) then Inr None
          else (case convert_rows q of Inl err \<Rightarrow> Inl err | Inr rs \<Rightarrow> Inr (Some rs)))"

definition record_call :: "api_call \<Rightarrow> world \<Rightarrow> world" where
  "record_call c w = w\<lparr>api_calls := api_calls w @ [c]\<rparr>"

definition fetch_volumn_price ::
  "env \<Rightarrow> feed \<Rightarrow> string \<Rightarrow> string \<Rightarrow> bool \<Rightarrow> world \<Rightarrow> world \<times> (error + row list option)" where
  "fetch_volumn_price e f asset adj update w =
     (let end_date = (if update then Str (TODAY f) else END f);
          c = Pro_bar (ticker f) (START f) end_date asset adj
      in (record_call c w, finish_query (api e c)))"

definition fetch_stock_limit ::
  "env \<Rightarrow> feed \<Rightarrow> bool \<Rightarrow> world \<Rightarrow> world \<times> (error + row list option)" where
  "fetch_stock_limit e f update w =
     (let end_date = (if update then Str (TODAY f) else END f);
          c = Stk_limit (ticker f) (START f) end_date
      in (record_call c w, finish_query (api e c)))"

definition fetch_stock_fundamental ::
  "env \<Rightarrow> feed \<Rightarrow> bool \<Rightarrow> world \<Rightarrow> world \<times> (error + row list option)" where
  "fetch_stock_fundamental e f update w =
     (let end_date = (if update then Str (TODAY f) else END f);
          c = Daily_basic (ticker f) (START f) end_date
      in (record_call c w, finish_query (api e c)))"

text \<open>
  \<open>TSDataFeed.fetch_stock_dividend(update, cutoff=...)\<close>: the request carries no date
  range; duplicates and rows without an ex-date are dropped; under \<open>update\<close> only rows
  with \<open>ex_date > cutoff\<close> (a comparison of strings) are kept. Comparing the column
  with a cutoff that is not a string raises \<open>TypeError\<close>.
\<close>

definition dividend_result :: "api_result \<Rightarrow> bool \<Rightarrow> pyval \<Rightarrow> error + row list option" where
  "dividend_result r update cutoff =
     (case r of
        Raises \<Rightarrow> Inl SourceError
      | RNone \<Rightarrow> Inr None
      | Frame q \<Rightarrow>
          if \<not> check_validity (Some q) then Inr None
          else
            (let q1 = filter (\<lambda>x. s_date x \<noteq> None) (remdups q) in
             case (if update
                   then (case cutoff of
                           Str c \<Rightarrow> Inr (filter (\<lambda>x. case s_date x of None \<Rightarrow> False
                                                       | Some s \<Rightarrow> str_less c s) q1)
                         | _ \<Rightarrow> Inl (TypeError ''ex_date > cutoff''))
                   else Inr q1) of
               Inl err \<Rightarrow> Inl err
             | Inr q2 \<Rightarrow> (case convert_rows q2 of Inl err \<Rightarrow> Inl err | Inr rs \<Rightarrow> Inr (Some rs))))"

definition fetch_stock_dividend ::
  "env \<Rightarrow> feed \<Rightarrow> bool \<Rightarrow> pyval \<Rightarrow> world \<Rightarrow> world \<times> (error + row list option)" where
  "fetch_stock_dividend e f update cutoff w =
     (let c = Dividend_q (ticker f)
      in (record_call c w, dividend_result (api e c) update cutoff))"

definition fetch_stock_suspend ::
  "env \<Rightarrow> feed \<Rightarrow> string \<Rightarrow> world \<Rightarrow> world \<times> (error + row list option)" where
  "fetch_stock_suspend e f tradeday w =
     (let c = Suspend_d tradeday in (record_call c w, finish_query (api e c)))"

text \<open>
  \<open>TSDataFeed.fetch_stock_basic\<close>: no validity check; the date column of a \<open>None\<close>
  query cannot be subscripted.
\<close>

definition fetch_stock_basic ::
  "env \<Rightarrow> feed \<Rightarrow> string \<Rightarrow> world \<Rightarrow> world \<times> (error + row list)" where
  "fetch_stock_basic e f list_status w =
     (let c = Stock_basic list_status
      in (record_call c w,
          case api e c of
            Raises \<Rightarrow> Inl SourceError
          | RNone \<Rightarrow> Inl (TypeError ''NoneType is not subscriptable'')
          | Frame q \<Rightarrow> convert_rows q))"

text \<open>\<open>DataFeedFactory.create_data_feed\<close>.\<close>

definition create_data_feed ::
  "env \<Rightarrow> string \<Rightarrow> pyval \<Rightarrow> pyval \<Rightarrow> pyval \<Rightarrow> error + feed" where
  "create_data_feed e src tk start_d end_d =
     (if src = ''tushare'' then Inr (TSDataFeed e tk start_d end_d)
      else Inl (ValueError (''Unsupported data feed type: '' @ src)))"

section \<open>The synchronisation engine (DataFeedManager)\<close>

text \<open>
  The constructor's \<open>database\<close> argument is one of the three names it accepts; any other
  name raises in the constructor and no manager exists. Python names that start with an
  underscore are written without it.
\<close>

record manager =
  source :: string
  database :: database
  ticker_list :: "string list"
  start_date :: pyval
  end_date :: pyval
  data_feeds :: "feed list"
  mgr_TODAY :: string

fun mapE :: "('a \<Rightarrow> error + 'b) \<Rightarrow> 'a list \<Rightarrow> error + 'b list" where
  "mapE g [] = Inr []"
| "mapE g (x # xs) =
     (case g x of
        Inl err \<Rightarrow> Inl err
      | Inr y \<Rightarrow> (case mapE g xs of Inl err \<Rightarrow> Inl err | Inr ys \<Rightarrow> Inr (y # ys)))"

text \<open>
  \<open>_load_datafeed(ticker_list, start_date, end_date, update=, table_name=, date_list=)\<close>.
  Under \<open>update\<close> the end of every range is \<open>self.TODAY\<close> and the start of each
  ticker's range is \<open>_get_ticker_date(table_date, ticker, shift=1)\<close>.
\<close>

definition load_datafeed ::
  "env \<Rightarrow> manager \<Rightarrow> world \<Rightarrow> string list option \<Rightarrow> pyval \<Rightarrow> pyval \<Rightarrow> bool \<Rightarrow> string
     \<Rightarrow> string list \<Rightarrow> error + feed list" where
  "load_datafeed e m w tks start_d end_d update table_name date_list =
     (let tickers = (case tks of None \<Rightarrow> ticker_list m | Some l \<Rightarrow> l);
          start0 = (if start_d = PyNone then start_date m else start_d);
          end0 = (if end_d = PyNone then end_date m else end_d)
      in if update \<and> table_name = []
         then Inl (AssertionError ''table name must be provided when `update` is set to `True`'')
         else
           (case (if update then get_table_date (database m) (tables w) table_name else Inr []) of
              Inl err \<Rightarrow> Inl err
            | Inr table_date \<Rightarrow>
                (let end1 = (if update then Str (mgr_TODAY m) else end0) in
                 if date_list \<noteq> []
                 then mapE (\<lambda>_. create_data_feed e (source m) PyNone PyNone PyNone) date_list
                 else mapE (\<lambda>tk.
                        if update
                        then (case get_ticker_date (database m) table_date tk 1 of
                                Inl err \<Rightarrow> Inl err
                              | Inr sd \<Rightarrow> create_data_feed e (source m) (Str tk) sd end1)
                        else create_data_feed e (source m) (Str tk) start0 end1) tickers)))"

text \<open>
  \<open>DataFeedManager.__init__\<close>, after the connection is opened: the defaults of the
  date range and the feeds of the full backfill.
\<close>

definition default_date :: "string \<Rightarrow> pyval \<Rightarrow> pyval" where
  "default_date dflt v =
     (case v of
        PyNone \<Rightarrow> Str dflt
      | Str s \<Rightarrow> if lower s = ''none'' then Str dflt else Str s
      | _ \<Rightarrow> v)"

definition DataFeedManager ::
  "env \<Rightarrow> string \<Rightarrow> database \<Rightarrow> string list \<Rightarrow> pyval \<Rightarrow> pyval \<Rightarrow> error + manager" where
  "DataFeedManager e src db tickers start_d end_d =
     (let m0 = \<lparr>source = src, database = db, ticker_list = tickers,
                start_date = default_date ''20050101'' start_d,
                end_date = default_date ''20231231'' end_d,
                data_feeds = [], mgr_TODAY = strftime_Ymd (today e)\<rparr>
      in case load_datafeed e m0 \<lparr>tables = Map.empty, logs = [], api_calls = [], inserts = []\<rparr>
                None PyNone PyNone False [] [] of
           Inl err \<Rightarrow> Inl err
         | Inr fs \<Rightarrow> Inr (m0\<lparr>data_feeds := fs\<rparr>))"

subsection \<open>Backend operations\<close>

text \<open>
  Each helper is an \<open>if\<close> chain over the backend name. Where the chain has no chdb
  branch the result variable is unbound on chdb and the \<open>return\<close> raises
  \<open>UnboundLocalError\<close>. A table is the list of its rows; the key constraints the
  backends declare (primary key, unique index) are not part of the model, so
  \<open>_insert_df_to_table\<close> appends, and what is proved about duplicates is about what
  the engine itself inserts.
\<close>

definition check_table_exists :: "database \<Rightarrow> world \<Rightarrow> string \<Rightarrow> bool" where
  "check_table_exists db w table_name = (tables w table_name \<noteq> None)"

definition check_table_empty :: "database \<Rightarrow> world \<Rightarrow> string \<Rightarrow> error + bool" where
  "check_table_empty db w table_name =
     (case db of
        Chdb \<Rightarrow> Inl (UnboundLocalError ''res'')
      | Duckdb \<Rightarrow> (case tables w table_name of
                     None \<Rightarrow> Inl (BackendError ''no such table'')
                   | Some t \<Rightarrow> Inr (rows t = []))
      | Mongodb \<Rightarrow> (case tables w table_name of
                      None \<Rightarrow> Inr True
                    | Some t \<Rightarrow> Inr (rows t = [])))"

text \<open>
  \<open>_check_data_exists(table_name, data_str)\<close>: a string with a dot is looked up as
  \<open>ts_code\<close>, any other as \<open>trade_date\<close>. The mongodb filter on \<open>trade_date\<close> is the
  \<^emph>\<open>string\<close> of the parsed date, which equals no stored date value.
\<close>

definition check_data_exists :: "database \<Rightarrow> world \<Rightarrow> string \<Rightarrow> string \<Rightarrow> error + bool" where
  "check_data_exists db w table_name data_str =
     (case db of
        Chdb \<Rightarrow> Inl (UnboundLocalError ''result'')
      | Duckdb \<Rightarrow>
          (case tables w table_name of
             None \<Rightarrow> Inl (BackendError ''no such table'')
           | Some t \<Rightarrow>
               if CHR ''.'' \<in> set data_str
               then Inr (list_ex (\<lambda>r. ts_code r = data_str) (rows t))
               else if date_col t \<noteq> ''trade_date'' then Inl (BackendError ''no such column'')
               else (case strptime_iso data_str of
                       None \<Rightarrow> Inl (BackendError ''conversion'')
                     | Some d \<Rightarrow> Inr (list_ex (\<lambda>r. rdate r = Some d) (rows t))))
      | Mongodb \<Rightarrow>
          if CHR ''.'' \<in> set data_str
          then (case tables w table_name of
                  None \<Rightarrow> Inr False
                | Some t \<Rightarrow> Inr (list_ex (\<lambda>r. ts_code r = data_str) (rows t)))
          else (case strptime_iso data_str of
                  None \<Rightarrow> Inl (ValueError data_str)
                | Some d \<Rightarrow> Inr False))"

definition get_table_ticker :: "database \<Rightarrow> world \<Rightarrow> string \<Rightarrow> error + string list" where
  "get_table_ticker db w table_name =
     (case db of
        Chdb \<Rightarrow> Inl (UnboundLocalError ''res'')
      | Duckdb \<Rightarrow> (case tables w table_name of
                     None \<Rightarrow> Inl (BackendError ''no such table'')
                   | Some t \<Rightarrow> Inr (remdups (map ts_code (rows t))))
      | Mongodb \<Rightarrow> (case tables w table_name of
                      None \<Rightarrow> Inr []
                    | Some t \<Rightarrow> Inr (remdups (map ts_code (rows t)))))"

text \<open>
  \<open>_insert_df_to_table(df, table_name)\<close>: all three branches append the frame. The
  engine creates a table before it inserts into it; an insert into a table that does
  not exist is recorded as a backend error.
\<close>

definition insert_df_to_table :: "database \<Rightarrow> world \<Rightarrow> string \<Rightarrow> row list \<Rightarrow> world \<times> error option" where
  "insert_df_to_table db w table_name df =
     (let w1 = w\<lparr>inserts := inserts w @ [(table_name, df)]\<rparr> in
      case tables w table_name of
        None \<Rightarrow> (w1, Some (BackendError ''no such table''))
      | Some t \<Rightarrow>
          (w1\<lparr>tables := (tables w)(table_name \<mapsto> Table (date_col t) (rows t @ df))\<rparr>, None))"

text \<open>
  \<open>_get_table_date(table_name, latest=True)\<close>: the maximum of the \<open>max_date\<close>
  column. The frame built from an empty mongodb aggregation has no columns at all.
\<close>

definition get_table_date_latest :: "database \<Rightarrow> (string \<rightharpoonup> table) \<Rightarrow> string \<Rightarrow> error + pyval" where
  "get_table_date_latest db tabs table_name =
     (case get_table_date db tabs table_name of
        Inl err \<Rightarrow> Inl err
      | Inr table_date \<Rightarrow>
          if db = Mongodb \<and> table_date = [] then Inl (KeyError ''max_date'')
          else (case max_date (map (\<lambda>kv. case snd kv of Timestamp d \<Rightarrow> Some d | _ \<Rightarrow> None)
                                   table_date) of
                  None \<Rightarrow> Inr (if db = Mongodb then PyNone else NaT)
                | Some d \<Rightarrow> Inr (Timestamp d)))"

definition log_info :: "string \<Rightarrow> world \<Rightarrow> world" where
  "log_info msg w = w\<lparr>logs := logs w @ [Info msg]\<rparr>"

definition log_warning :: "string \<Rightarrow> world \<Rightarrow> world" where
  "log_warning msg w = w\<lparr>logs := logs w @ [Warning msg]\<rparr>"

text \<open>\<open>' '.join(table_name.split('_'))\<close>: every underscore becomes a space.\<close>

definition spaced :: "string \<Rightarrow> string" where
  "spaced s = map (\<lambda>c. if c = CHR ''_'' then CHR '' '' else c) s"

text \<open>
  The head of every fetch operation: create the table (with the category's date
  column) when it does not exist, and log it.
\<close>

definition ensure_table :: "database \<Rightarrow> string \<Rightarrow> string \<Rightarrow> string \<Rightarrow> world \<Rightarrow> world" where
  "ensure_table db table_name dcol what w =
     (if \<not> check_table_exists db w table_name
      then log_info (''Created table '' @ table_name @ '', storing '' @ spaced table_name @ what)
             (w\<lparr>tables := (tables w)(table_name \<mapsto> Table dcol [])\<rparr>)
      else w)"

subsection \<open>Units and loops\<close>

text \<open>The warning every loop logs for a unit without data.\<close>

definition empty_warning :: "string \<Rightarrow> string \<Rightarrow> string" where
  "empty_warning table_name unit_name =
     ''Table '' @ table_name @ '', '' @ unit_name @ '' data is empty.''"

text \<open>
  The body every loop runs for one unit once its data is fetched: an invalid (empty or
  \<open>None\<close>) result logs a warning and continues; anything else is inserted. There is no
  \<open>try\<close> around the fetch: an exception leaves the loop and the operation.
\<close>

definition process_unit ::
  "database \<Rightarrow> (world \<Rightarrow> world \<times> (error + row list option)) \<Rightarrow> string \<Rightarrow> string \<Rightarrow> world
     \<Rightarrow> world \<times> error option" where
  "process_unit db fetch table_name unit_name w =
     (case fetch w of
        (w1, Inl err) \<Rightarrow> (w1, Some err)
      | (w1, Inr data) \<Rightarrow>
          if \<not> check_validity data
          then (log_warning (empty_warning table_name unit_name) w1, None)
          else insert_df_to_table db w1 table_name (case data of Some rs \<Rightarrow> rs | None \<Rightarrow> []))"

fun run_units :: "('u \<Rightarrow> world \<Rightarrow> world \<times> error option) \<Rightarrow> 'u list \<Rightarrow> world \<Rightarrow> world \<times> error option" where
  "run_units step [] w = (w, None)"
| "run_units step (u # us) w =
     (case step u w of
        (w1, Some err) \<Rightarrow> (w1, Some err)
      | (w1, None) \<Rightarrow> run_units step us w1)"

datatype category = Price | Limit | Fundamental | Dividend

definition adapter_fetch ::
  "env \<Rightarrow> category \<Rightarrow> string \<Rightarrow> string \<Rightarrow> feed \<Rightarrow> bool \<Rightarrow> pyval \<Rightarrow> world
     \<Rightarrow> world \<times> (error + row list option)" where
  "adapter_fetch e cat asset adj f update cutoff =
     (case cat of
        Price \<Rightarrow> fetch_volumn_price e f asset adj update
      | Limit \<Rightarrow> fetch_stock_limit e f update
      | Fundamental \<Rightarrow> fetch_stock_fundamental e f update
      | Dividend \<Rightarrow> fetch_stock_dividend e f update cutoff)"

text \<open>The full-backfill loop body: skip a unit the table already holds.\<close>

definition normal_step ::
  "database \<Rightarrow> (feed \<Rightarrow> world \<Rightarrow> world \<times> (error + row list option)) \<Rightarrow> string
     \<Rightarrow> string \<times> feed \<Rightarrow> world \<Rightarrow> world \<times> error option" where
  "normal_step db fetch table_name u w =
     (case check_data_exists db w table_name (fst u) of
        Inl err \<Rightarrow> (w, Some err)
      | Inr True \<Rightarrow> (w, None)
      | Inr False \<Rightarrow> process_unit db (fetch (snd u)) table_name (fst u) w)"

text \<open>
  The loop body for tickers the table already holds. Only the dividend operation
  computes a cutoff, \<open>_get_ticker_date(table_date, ticker, shift=1)\<close>.
\<close>

definition existing_step ::
  "env \<Rightarrow> database \<Rightarrow> category \<Rightarrow> string \<Rightarrow> string \<Rightarrow> (string \<times> pyval) list \<Rightarrow> string
     \<Rightarrow> string \<times> feed \<Rightarrow> world \<Rightarrow> world \<times> error option" where
  "existing_step e db cat asset adj table_date table_name u w =
     (if cat = Dividend
      then (case get_ticker_date db table_date (fst u) 1 of
              Inl err \<Rightarrow> (w, Some err)
            | Inr next_ticker_date \<Rightarrow>
                process_unit db (fetch_stock_dividend e (snd u) True next_ticker_date)
                  table_name (fst u) w)
      else process_unit db (adapter_fetch e cat asset adj (snd u) True PyNone) table_name (fst u) w)"

text \<open>
  The loop body for requested tickers the table does not hold yet. The price operation
  calls the adapter with \<open>update=True\<close> here, the other three without.
\<close>

definition extra_step ::
  "env \<Rightarrow> database \<Rightarrow> category \<Rightarrow> string \<Rightarrow> string \<Rightarrow> string
     \<Rightarrow> string \<times> feed \<Rightarrow> world \<Rightarrow> world \<times> error option" where
  "extra_step e db cat asset adj table_name u w =
     process_unit db (adapter_fetch e cat asset adj (snd u) (cat = Price) PyNone) table_name (fst u) w"

definition cat_date_col :: "category \<Rightarrow> string" where
  "cat_date_col cat = (if cat = Dividend then ''ex_date'' else ''trade_date'')"

definition cat_what :: "category \<Rightarrow> string" where
  "cat_what cat = (case cat of Price \<Rightarrow> '' volumn-price data.'' | Limit \<Rightarrow> '' price data.''
                   | _ \<Rightarrow> '' data.'')"

text \<open>
  \<open>set(self.ticker_list).difference(table_ticker_list)\<close> as a list. Python leaves the
  order of a set open; the model keeps the order of the request.
\<close>

definition extra_tickers :: "string list \<Rightarrow> string list \<Rightarrow> string list" where
  "extra_tickers requested present = remdups (filter (\<lambda>t. t \<notin> set present) requested)"

text \<open>
  \<open>fetch_volumn_price_data\<close>, \<open>fetch_stock_limit_data\<close>, \<open>fetch_stock_fundamental_data\<close>
  and \<open>fetch_stock_dividend_data\<close> are four copies of one text that differ in the
  adapter operation they call, in the \<open>update\<close> flag of the call for new tickers, and in
  the cutoff of the dividend operation. The model is that text once, indexed by the
  category.
\<close>

definition fetch_ticker_data ::
  "env \<Rightarrow> manager \<Rightarrow> category \<Rightarrow> string \<Rightarrow> string \<Rightarrow> string \<Rightarrow> bool \<Rightarrow> world
     \<Rightarrow> world \<times> error option" where
  "fetch_ticker_data e m cat table_name asset adj update w =
     (let db = database m;
          w1 = ensure_table db table_name (cat_date_col cat) (cat_what cat) w
      in if update then
           (case check_table_empty db w1 table_name of
              Inl err \<Rightarrow> (w1, Some err)
            | Inr True \<Rightarrow>
                (w1, Some (LookupError (''Table is empty, insert data into table '' @ table_name
                                          @ '' first!'')))
            | Inr False \<Rightarrow>
           (case get_table_ticker db w1 table_name of
              Inl err \<Rightarrow> (w1, Some err)
            | Inr table_ticker_list \<Rightarrow>
           (case load_datafeed e m w1 (Some table_ticker_list) PyNone PyNone True table_name [] of
              Inl err \<Rightarrow> (w1, Some err)
            | Inr feeds \<Rightarrow>
           (case (if cat = Dividend then get_table_date db (tables w1) table_name else Inr []) of
              Inl err \<Rightarrow> (w1, Some err)
            | Inr table_date \<Rightarrow>
           (case run_units (existing_step e db cat asset adj table_date table_name)
                   (zip table_ticker_list feeds) w1 of
              (w2, Some err) \<Rightarrow> (w2, Some err)
            | (w2, None) \<Rightarrow>
           (let extra_ticker_list = extra_tickers (ticker_list m) table_ticker_list in
            case load_datafeed e m w2 (Some extra_ticker_list) PyNone (Str (mgr_TODAY m))
                   False [] [] of
              Inl err \<Rightarrow> (w2, Some err)
            | Inr extra_data_feeds \<Rightarrow>
           (case run_units (extra_step e db cat asset adj table_name)
                   (zip extra_ticker_list extra_data_feeds) w2 of
              (w3, Some err) \<Rightarrow> (w3, Some err)
            | (w3, None) \<Rightarrow>
                (log_info (table_name @ '' data update completed.'') w3, None))))))))
         else
           (case run_units (normal_step db (\<lambda>f. adapter_fetch e cat asset adj f False PyNone) table_name)
                   (zip (ticker_list m) (data_feeds m)) w1 of
              (w2, Some err) \<Rightarrow> (w2, Some err)
            | (w2, None) \<Rightarrow> (log_info (table_name @ '' data insertion completed.'') w2, None)))"

definition fetch_volumn_price_data ::
  "env \<Rightarrow> manager \<Rightarrow> string \<Rightarrow> string \<Rightarrow> string \<Rightarrow> bool \<Rightarrow> world \<Rightarrow> world \<times> error option" where
  "fetch_volumn_price_data e m table_name asset adj update =
     fetch_ticker_data e m Price table_name asset adj update"

definition fetch_stock_limit_data ::
  "env \<Rightarrow> manager \<Rightarrow> string \<Rightarrow> bool \<Rightarrow> world \<Rightarrow> world \<times> error option" where
  "fetch_stock_limit_data e m table_name update =
     fetch_ticker_data e m Limit table_name [] [] update"

definition fetch_stock_fundamental_data ::
  "env \<Rightarrow> manager \<Rightarrow> string \<Rightarrow> bool \<Rightarrow> world \<Rightarrow> world \<times> error option" where
  "fetch_stock_fundamental_data e m table_name update =
     fetch_ticker_data e m Fundamental table_name [] [] update"

definition fetch_stock_dividend_data ::
  "env \<Rightarrow> manager \<Rightarrow> string \<Rightarrow> bool \<Rightarrow> world \<Rightarrow> world \<times> error option" where
  "fetch_stock_dividend_data e m table_name update =
     fetch_ticker_data e m Dividend table_name [] [] update"

subsection \<open>Requests, results and what a run leaves behind\<close>




definition persisted :: "world \<Rightarrow> string \<Rightarrow> string \<Rightarrow> bool" where
  "persisted w table_name tk =
     (case tables w table_name of
        None \<Rightarrow> False
      | Some t \<Rightarrow> list_ex (\<lambda>r. ts_code r = tk) (rows t))"

definition grows :: "world \<Rightarrow> world \<Rightarrow> bool" where
  "grows w w' =
     (set (api_calls w) \<subseteq> set (api_calls w') \<and> set (inserts w) \<subseteq> set (inserts w')
      \<and> (\<forall>tn t. tables w tn = Some t \<longrightarrow>
             (\<exists>t'. tables w' tn = Some t' \<and> set (rows t) \<subseteq> set (rows t'))))"

text \<open>
  \<open>fetch_stock_suspend_data\<close>: the units are trade days. Under \<open>update\<close> the first
  day is the trade day after the latest persisted date; there is no emptiness check on
  this path. The calendar is asked twice for the same range, once per string format.
\<close>

definition suspend_step ::
  "env \<Rightarrow> database \<Rightarrow> string \<Rightarrow> bool \<Rightarrow> string \<times> string \<times> feed \<Rightarrow> world \<Rightarrow> world \<times> error option" where
  "suspend_step e db table_name check u w =
     (case u of (date_s, format_date, f) \<Rightarrow>
        if check
        then (case check_data_exists db w table_name format_date of
                Inl err \<Rightarrow> (w, Some err)
              | Inr True \<Rightarrow> (w, None)
              | Inr False \<Rightarrow> process_unit db (fetch_stock_suspend e f date_s) table_name date_s w)
        else process_unit db (fetch_stock_suspend e f date_s) table_name date_s w)"

definition fetch_stock_suspend_data ::
  "env \<Rightarrow> manager \<Rightarrow> string \<Rightarrow> bool \<Rightarrow> world \<Rightarrow> world \<times> error option" where
  "fetch_stock_suspend_data e m table_name update w =
     (let db = database m;
          w1 = ensure_table db table_name ''trade_date'' '' data.'' w
      in case (if update
               then (case get_table_date_latest db (tables w1) table_name of
                       Inl err \<Rightarrow> Inl err
                     | Inr latest \<Rightarrow>
                         (case next_trade_day e latest of
                            Inl err \<Rightarrow> Inl err
                          | Inr start_d \<Rightarrow> get_trade_day e start_d (Str (mgr_TODAY m))))
               else get_trade_day e (start_date m) (end_date m)) of
           Inl err \<Rightarrow> (w1, Some err)
         | Inr days \<Rightarrow>
             (let tradeday_list = map strftime_Ymd days;
                  date_for_query = map strftime_iso days
              in case load_datafeed e m w1 None PyNone PyNone False [] tradeday_list of
                   Inl err \<Rightarrow> (w1, Some err)
                 | Inr feeds \<Rightarrow>
                     (case run_units (suspend_step e db table_name (\<not> update))
                             (zip tradeday_list (zip date_for_query feeds)) w1 of
                        (w2, Some err) \<Rightarrow> (w2, Some err)
                      | (w2, None) \<Rightarrow>
                          (log_info (table_name @ (if update then '' data update completed.''
                                                   else '' data insertion completed.'')) w2,
                           None))))"

text \<open>
  \<open>fetch_stock_basic_data\<close>: one unit. After the warning for an invalid result there
  is no \<open>return\<close>; the insert follows in every case.
\<close>

definition fetch_stock_basic_data ::
  "env \<Rightarrow> manager \<Rightarrow> string \<Rightarrow> string \<Rightarrow> world \<Rightarrow> world \<times> error option" where
  "fetch_stock_basic_data e m table_name list_status w =
     (let db = database m;
          w1 = ensure_table db table_name ''list_date'' '' data.'' w
      in case data_feeds m of
           [] \<Rightarrow> (w1, Some IndexError)
         | f # _ \<Rightarrow>
             (case fetch_stock_basic e f list_status w1 of
                (w2, Inl err) \<Rightarrow> (w2, Some err)
              | (w2, Inr data) \<Rightarrow>
                  (let w3 = (if \<not> check_validity (Some data)
                             then log_warning ''Stock basic data is empty.'' w2 else w2)
                   in case insert_df_to_table db w3 table_name data of
                        (w4, Some err) \<Rightarrow> (w4, Some err)
                      | (w4, None) \<Rightarrow>
                          (log_info (table_name @ '' data insertion completed.'') w4, None))))"

section \<open>The rate limiter\<close>






section \<open>The connection holder\<close>

text \<open>
  \<open>DatabaseConnection\<close> keeps its only instance in a class attribute. The heap holds
  that attribute and the objects. The configuration file is not part of the
  sources; it is a parameter, a dictionary of dictionaries.
\<close>

datatype cval = CNone | CStr string | CInt int

record DatabaseConnection =
  host :: cval
  port :: cval
  username :: cval
  password :: cval
  data_path :: cval
  factor_path :: cval

record heap =
  cls_instance :: "nat option"
  objs :: "DatabaseConnection list"

definition getd :: "(string \<rightharpoonup> cval) \<Rightarrow> string \<Rightarrow> cval" where
  "getd d k = (case d k of None \<Rightarrow> CNone | Some v \<Rightarrow> v)"

definition blank :: DatabaseConnection where
  "blank = \<lparr>host = CNone, port = CNone, username = CNone, password = CNone,
            data_path = CNone, factor_path = CNone\<rparr>"

text \<open>
  \<open>DatabaseConnection.__new__\<close>: allocate only when there is no instance yet. The
  address of an object is its index in the heap.
\<close>

definition new_DatabaseConnection :: "heap \<Rightarrow> heap \<times> nat" where
  "new_DatabaseConnection h =
     (case cls_instance h of
        Some a \<Rightarrow> (h, a)
      | None \<Rightarrow> (h\<lparr>cls_instance := Some (length (objs h)), objs := objs h @ [blank]\<rparr>,
                 length (objs h)))"

text \<open>
  \<open>DatabaseConnection(**config)\<close>: \<open>__new__\<close>, then \<open>__init__\<close> on the object it
  returned, with \<open>None\<close> for every keyword the call does not pass.
\<close>

definition build :: "(string \<rightharpoonup> cval) \<Rightarrow> heap \<Rightarrow> heap \<times> nat" where
  "build config h =
     (case new_DatabaseConnection h of
        (h1, a) \<Rightarrow>
          (h1\<lparr>objs := (objs h1)[a :=
                 \<lparr>host = getd config ''host'', port = getd config ''port'',
                  username = getd config ''username'', password = getd config ''password'',
                  data_path = getd config ''data_path'',
                  factor_path = getd config ''factor_path''\<rparr>]\<rparr>, a))"

text \<open>\<open>ConnectionBuilder.__init__\<close>: the four named keywords; any other key is dropped.\<close>

definition ConnectionBuilder :: "(string \<rightharpoonup> cval) \<Rightarrow> (string \<rightharpoonup> cval)" where
  "ConnectionBuilder kw =
     [''host'' \<mapsto> getd kw ''host'', ''port'' \<mapsto> getd kw ''port'',
      ''username'' \<mapsto> getd kw ''username'', ''password'' \<mapsto> getd kw ''password'']"

definition connection_factory ::
  "(string \<rightharpoonup> (string \<rightharpoonup> cval)) \<Rightarrow> string \<Rightarrow> heap \<Rightarrow> heap \<times> (error + nat)" where
  "connection_factory database_cfg db_type h =
     (case database_cfg db_type of
        None \<Rightarrow> (h, Inl (KeyError db_type))
      | Some kw \<Rightarrow>
          (let builder = ConnectionBuilder kw in
           if db_type = ''mongodb'' then (case build builder h of (h1, a) \<Rightarrow> (h1, Inr a))
           else if db_type = ''duckdb'' \<or> db_type = ''chdb'' then
             (case kw ''data_path'' of
                None \<Rightarrow> (h, Inl (KeyError ''data_path''))
              | Some dp \<Rightarrow>
                  (case kw ''factor_path'' of
                     None \<Rightarrow> (h, Inl (KeyError ''factor_path''))
                   | Some fp \<Rightarrow>
                       (case build (builder(''data_path'' \<mapsto> dp, ''factor_path'' \<mapsto> fp)) h of
                          (h1, a) \<Rightarrow> (h1, Inr a))))
           else (h, Inl (NotImplementedError (''Database '' @ db_type @ '' not implemented yet.'')))))"

text \<open>
  A heap is well formed when the class attribute points into it. The configuration the
  factory hands to \<open>build\<close> for a backend, as one dictionary.
\<close>

definition wf_heap :: "heap \<Rightarrow> bool" where
  "wf_heap h = (case cls_instance h of None \<Rightarrow> True | Some a \<Rightarrow> a < length (objs h))"

definition factory_config :: "string \<Rightarrow> (string \<rightharpoonup> cval) \<Rightarrow> (string \<rightharpoonup> cval)" where
  "factory_config db_type kw =
     (if db_type = ''mongodb'' then ConnectionBuilder kw
      else (ConnectionBuilder kw)(''data_path'' \<mapsto> getd kw ''data_path'',
                                  ''factor_path'' \<mapsto> getd kw ''factor_path''))"

section \<open>Scenarios\<close>

text \<open>Concrete environments, managers and tables on which the engine is run below.\<close>

definition no_calendar :: "pyval \<Rightarrow> error + pyval" where
  "no_calendar v = Inl (NotImplementedError [])"

definition quiet_env :: env where
  "quiet_env = \<lparr>api = (\<lambda>c. RNone), today = Date 2026 11 3,
                 next_trade_day = no_calendar, get_trade_day = (\<lambda>a b. Inr [])\<rparr>"

definition empty_world :: world where
  "empty_world = \<lparr>tables = Map.empty, logs = [], api_calls = [], inserts = []\<rparr>"

definition sz1_manager :: "database \<Rightarrow> manager" where
  "sz1_manager db = \<lparr>source = ''tushare'', database = db, ticker_list = [''000001.SZ''],
      start_date = Str ''20050101'', end_date = Str ''20231231'',
      data_feeds = [Feed (Str ''000001.SZ'') (Str ''20050101'') (Str ''20231231'') ''20261103''],
      mgr_TODAY = ''20261103''\<rparr>"

definition two_manager :: manager where
  "two_manager = \<lparr>source = ''tushare'', database = Duckdb,
      ticker_list = [''000001.SZ'', ''000002.SZ''],
      start_date = Str ''20050101'', end_date = Str ''20231231'',
      data_feeds = [Feed (Str ''000001.SZ'') (Str ''20050101'') (Str ''20231231'') ''20261103'',
                    Feed (Str ''000002.SZ'') (Str ''20050101'') (Str ''20231231'') ''20261103''],
      mgr_TODAY = ''20261103''\<rparr>"

definition price_world :: world where
  "price_world = \<lparr>tables = [''stock_daily'' \<mapsto> Table ''trade_date''
                     [Row ''000001.SZ'' (Some (Date 2023 1 4)) ''r1'',
                      Row ''000001.SZ'' (Some (Date 2023 1 5)) ''r2'']],
                   logs = [], api_calls = [], inserts = []\<rparr>"

definition dividend_api :: "api_call \<Rightarrow> api_result" where
  "dividend_api c =
     (if c = Dividend_q (Str ''000001.SZ'')
      then Frame [SrcRow ''000001.SZ'' (Some ''20230301'') ''d1'',
                  SrcRow ''000001.SZ'' (Some ''20230302'') ''d2'',
                  SrcRow ''000001.SZ'' (Some ''20230303'') ''d3'',
                  SrcRow ''000001.SZ'' (Some ''20230304'') ''d4'']
      else RNone)"

definition dividend_world :: world where
  "dividend_world = \<lparr>tables = [''stock_dividend'' \<mapsto> Table ''ex_date''
                        [Row ''000001.SZ'' (Some (Date 2022 6 1)) ''d0'',
                         Row ''000001.SZ'' (Some (Date 2023 3 1)) ''d1'']],
                      logs = [], api_calls = [], inserts = []\<rparr>"

definition empty_basic_api :: "api_call \<Rightarrow> api_result" where
  "empty_basic_api c = Frame []"

definition failing_api :: "api_call \<Rightarrow> api_result" where
  "failing_api c =
     (if c = Pro_bar (Str ''000001.SZ'') (Str ''20050101'') (Str ''20231231'') ''E'' [] then Raises
      else Frame [SrcRow ''000002.SZ'' (Some ''20230103'') ''b''])"

definition empty_daily_world :: world where
  "empty_daily_world = \<lparr>tables = [''stock_daily'' \<mapsto> Table ''trade_date'' []],
                         logs = [], api_calls = [], inserts = []\<rparr>"

definition onboarding_api :: "api_call \<Rightarrow> api_result" where
  "onboarding_api c =
     (if c = Pro_bar (Str ''000002.SZ'') (Str ''20050101'') (Str ''20261103'') ''E'' []
      then Frame [SrcRow ''000002.SZ'' (Some ''20230103'') ''b'']
      else RNone)"

definition onboarded_world :: world where
  "onboarded_world = \<lparr>tables = [''stock_daily'' \<mapsto> Table ''trade_date''
                     [Row ''000001.SZ'' (Some (Date 2023 1 4)) ''r1'',
                      Row ''000001.SZ'' (Some (Date 2023 1 5)) ''r2'',
                      Row ''000002.SZ'' (Some (Date 2023 1 3)) ''b'']],
       logs = [Warning ''Table stock_daily, 000001.SZ data is empty.'',
               Info ''stock_daily data update completed.''],
       api_calls = [Pro_bar (Str ''000001.SZ'') (Str ''20230107'') (Str ''20261103'') ''E'' [],
                    Pro_bar (Str ''000002.SZ'') (Str ''20050101'') (Str ''20261103'') ''E'' []],
       inserts = [(''stock_daily'', [Row ''000002.SZ'' (Some (Date 2023 1 3)) ''b''])]\<rparr>"

definition two_backends :: "string \<rightharpoonup> (string \<rightharpoonup> cval)" where
  "two_backends =
     [''mongodb'' \<mapsto> [''host'' \<mapsto> CStr ''localhost'', ''port'' \<mapsto> CInt 27017],
      ''duckdb'' \<mapsto> [''data_path'' \<mapsto> CStr ''/data/base.db'',
                    ''factor_path'' \<mapsto> CStr ''/data/factor.db'']]"

definition no_instance :: heap where
  "no_instance = \<lparr>cls_instance = None, objs = []\<rparr>"

definition mongo_heap :: heap where
  "mongo_heap = \<lparr>cls_instance = Some 0,
                  objs = [\<lparr>host = CStr ''localhost'', port = CInt 27017, username = CNone,
                           password = CNone, data_path = CNone, factor_path = CNone\<rparr>]\<rparr>"

definition duck_heap :: heap where
  "duck_heap = \<lparr>cls_instance = Some 0,
                 objs = [\<lparr>host = CNone, port = CNone, username = CNone, password = CNone,
                          data_path = CStr ''/data/base.db'',
                          factor_path = CStr ''/data/factor.db''\<rparr>]\<rparr>"

section \<open>Evaluation\<close>

lemma add_days_1 [simp]: "add_days 1 d = next_day d"
  by (simp add: One_nat_def)

lemma add_days_numeral [simp]:
  "add_days (numeral n) d = add_days (pred_numeral n) (next_day d)"
  by (simp add: numeral_eq_Suc)

lemmas date_eval = strftime_Ymd_def strftime_iso_def pad4_def pad2_def digit_def strptime_Ymd_def
  strptime_iso_def is_digit_def num_of_def mk_date_def valid_date_def days_in_month_def
  next_day_def is_leap_def date_less_def

lemmas engine_eval = get_table_date_def get_ticker_date_def group_max_def max_date_def
  TSDataFeed_def check_validity_def to_datetime_def finish_query_def record_call_def
  fetch_volumn_price_def fetch_stock_limit_def fetch_stock_fundamental_def dividend_result_def
  fetch_stock_dividend_def fetch_stock_suspend_def fetch_stock_basic_def create_data_feed_def
  load_datafeed_def default_date_def DataFeedManager_def check_table_exists_def
  check_table_empty_def check_data_exists_def get_table_ticker_def insert_df_to_table_def
  get_table_date_latest_def log_info_def log_warning_def spaced_def ensure_table_def
  process_unit_def empty_warning_def adapter_fetch_def normal_step_def existing_step_def
  extra_step_def
  cat_date_col_def cat_what_def extra_tickers_def fetch_ticker_data_def
  fetch_volumn_price_data_def fetch_stock_limit_data_def fetch_stock_fundamental_data_def
  fetch_stock_dividend_data_def suspend_step_def fetch_stock_suspend_data_def
  fetch_stock_basic_data_def lower_def lower_char_def

lemmas scenario_defs = quiet_env_def empty_world_def sz1_manager_def two_manager_def
  price_world_def dividend_api_def dividend_world_def empty_basic_api_def failing_api_def
  no_calendar_def empty_daily_world_def onboarding_api_def onboarded_world_def

section \<open>The watermark\<close>

text \<open>
  C1. The fetch start of an incremental update should be the latest persisted date of
  the ticker plus one day. The table below holds rows of 000001.SZ up to 2023-01-05,
  persisted as Timestamps. Its watermark is 2023-01-05, but \<open>_get_ticker_date\<close> with
  \<open>shift=1\<close> returns 20230107: the shift is applied once to the Timestamp and once
  more to the string made from it. The request of the incremental run starts on
  2023-01-07, so 2023-01-06 is never asked for.
\<close>

theorem watermark_shift_applied_twice:
  "get_table_date Duckdb (tables price_world) ''stock_daily''
     = Inr [(''000001.SZ'', Timestamp (Date 2023 1 5))]
   \<and> get_ticker_date Duckdb [(''000001.SZ'', Timestamp (Date 2023 1 5))] ''000001.SZ'' 1
     = Inr (Str ''20230107'')
   \<and> api_calls (fst (fetch_volumn_price_data quiet_env (sz1_manager Duckdb) ''stock_daily''
                        ''E'' [] True price_world))
     = [Pro_bar (Str ''000001.SZ'') (Str ''20230107'') (Str ''20261103'') ''E'' []]"
  by (simp add: engine_eval date_eval scenario_defs)

text \<open>
  C2. An incremental dividend update should drop the returned records with an ex-date
  at or before the latest persisted ex-date \<open>D\<close> and keep every later one. With
  \<open>D\<close> = 2023-03-01 and records dated 03-01, 03-02, 03-03 and 03-04 returned by the
  source, only the record of 03-04 is inserted: the cutoff handed to the adapter is
  the shifted watermark, and the adapter keeps the records strictly after it.
\<close>

theorem dividend_cutoff_drops_later_records:
  "inserts (fst (fetch_stock_dividend_data (quiet_env\<lparr>api := dividend_api\<rparr>)
                    (sz1_manager Duckdb) ''stock_dividend'' True dividend_world))
     = [(''stock_dividend'', [Row ''000001.SZ'' (Some (Date 2023 3 4)) ''d4''])]"
  by (simp add: engine_eval date_eval scenario_defs)

section \<open>Empty results and failures\<close>



section \<open>Units, loops and failures\<close>




lemma process_unit_valid:
  "fetch w = (w1, Inr (Some rs)) \<Longrightarrow> rs \<noteq> [] \<Longrightarrow>
     process_unit db fetch tn nm w = insert_df_to_table db w1 tn rs"
  by (simp add: process_unit_def check_validity_def)




section \<open>New tickers in an incremental update\<close>

lemma grows_refl [simp]: "grows w w"
  by (simp add: grows_def)















lemma persisted_ensure_table [simp]:
  "persisted (ensure_table db tn dc what w) tn tk = persisted w tn tk"
  by (auto simp add: persisted_def ensure_table_def check_table_exists_def log_info_def)







section \<open>The default fetch range\<close>





section \<open>The rate limiter counts per fixed window\<close>










section \<open>The connection holder is one object\<close>

lemma build_props:
  assumes "wf_heap h" and "build config h = (h1, a)"
  shows "cls_instance h1 = Some a \<and> a < length (objs h1) \<and> wf_heap h1
       \<and> (\<forall>b. cls_instance h = Some b \<longrightarrow> a = b)
       \<and> objs h1 ! a = \<lparr>host = getd config ''host'', port = getd config ''port'',
                  username = getd config ''username'', password = getd config ''password'',
                  data_path = getd config ''data_path'',
                  factor_path = getd config ''factor_path''\<rparr>"
  using assms
  by (auto simp add: build_def new_DatabaseConnection_def wf_heap_def nth_append
      split: option.splits)

lemma factory_build:
  assumes "connection_factory cfg t h = (h1, Inr a)"
  shows "\<exists>kw. cfg t = Some kw \<and> build (factory_config t kw) h = (h1, a)"
proof (cases "cfg t")
  case None
  with assms show ?thesis by (simp add: connection_factory_def)
next
  case (Some kw)
  show ?thesis
  proof (cases "t = ''mongodb''")
    case True
    with Some assms have "build (ConnectionBuilder kw) h = (h1, a)"
      by (simp add: connection_factory_def split: prod.splits)
    with Some True show ?thesis by (simp add: factory_config_def)
  next
    case False
    note nm = this
    show ?thesis
    proof (cases "kw ''data_path''")
      case None
      with Some nm assms show ?thesis
        by (simp add: connection_factory_def split: if_splits)
    next
      case dp: (Some dp)
      show ?thesis
      proof (cases "kw ''factor_path''")
        case None
        with Some nm dp assms show ?thesis
          by (simp add: connection_factory_def split: if_splits)
      next
        case fp: (Some fp)
        from Some nm dp fp assms
        have "build ((ConnectionBuilder kw)(''data_path'' \<mapsto> dp, ''factor_path'' \<mapsto> fp)) h
                = (h1, a)"
          by (simp add: connection_factory_def split: if_splits prod.splits)
        with Some nm dp fp show ?thesis by (simp add: factory_config_def getd_def)
      qed
    qed
  qed
qed

lemma factory_config_get:
  "getd (factory_config t kw) ''host'' = getd kw ''host''"
  "getd (factory_config t kw) ''port'' = getd kw ''port''"
  "getd (factory_config t kw) ''username'' = getd kw ''username''"
  "getd (factory_config t kw) ''password'' = getd kw ''password''"
  "getd (factory_config t kw) ''data_path''
     = (if t = ''mongodb'' then CNone else getd kw ''data_path'')"
  "getd (factory_config t kw) ''factor_path''
     = (if t = ''mongodb'' then CNone else getd kw ''factor_path'')"
  by (simp_all add: factory_config_def ConnectionBuilder_def getd_def)

text \<open>
  C10. Two successful calls of \<open>connection_factory\<close>, for any two backends, return the
  same object; after the second call that object carries the configuration of the
  second backend in all six attributes, with \<open>None\<close> for every attribute the second
  configuration does not supply. The object the first call returned is therefore
  changed by the second.
\<close>

theorem connection_singleton:
  assumes "wf_heap h"
    and "connection_factory cfg t1 h = (h1, Inr a1)"
    and "connection_factory cfg t2 h1 = (h2, Inr a2)"
    and "cfg t2 = Some kw"
  shows "a2 = a1 \<and> cls_instance h2 = Some a1
       \<and> objs h2 ! a1 = \<lparr>host = getd kw ''host'', port = getd kw ''port'',
             username = getd kw ''username'', password = getd kw ''password'',
             data_path = (if t2 = ''mongodb'' then CNone else getd kw ''data_path''),
             factor_path = (if t2 = ''mongodb'' then CNone else getd kw ''factor_path'')\<rparr>"
proof -
  from factory_build [OF assms(2)] obtain kw1
    where b1: "build (factory_config t1 kw1) h = (h1, a1)" by blast
  from factory_build [OF assms(3)] assms(4)
  have b2: "build (factory_config t2 kw) h1 = (h2, a2)" by auto
  from build_props [OF assms(1) b1]
  have i1: "cls_instance h1 = Some a1" and w1: "wf_heap h1" by auto
  from build_props [OF w1 b2] i1
  have "a2 = a1" and "cls_instance h2 = Some a2"
    and "objs h2 ! a2 = \<lparr>host = getd (factory_config t2 kw) ''host'',
           port = getd (factory_config t2 kw) ''port'',
           username = getd (factory_config t2 kw) ''username'',
           password = getd (factory_config t2 kw) ''password'',
           data_path = getd (factory_config t2 kw) ''data_path'',
           factor_path = getd (factory_config t2 kw) ''factor_path''\<rparr>" by auto
  then show ?thesis by (simp add: factory_config_get)
qed

lemmas factory_eval = connection_factory_def two_backends_def no_instance_def mongo_heap_def
  duck_heap_def build_def new_DatabaseConnection_def ConnectionBuilder_def getd_def blank_def
  wf_heap_def

theorem connection_singleton_witness:
  "wf_heap no_instance
   \<and> connection_factory two_backends ''mongodb'' no_instance = (mongo_heap, Inr 0)
   \<and> connection_factory two_backends ''duckdb'' mongo_heap = (duck_heap, Inr 0)
   \<and> objs mongo_heap ! 0 = \<lparr>host = CStr ''localhost'', port = CInt 27017, username = CNone,
         password = CNone, data_path = CNone, factor_path = CNone\<rparr>
   \<and> objs duck_heap ! 0 = \<lparr>host = CNone, port = CNone, username = CNone, password = CNone,
         data_path = CStr ''/data/base.db'', factor_path = CStr ''/data/factor.db''\<rparr>"
proof -
  have h0: "wf_heap no_instance" by (simp add: factory_eval)
  have h1: "connection_factory two_backends ''mongodb'' no_instance = (mongo_heap, Inr 0)"
    by (simp add: factory_eval)
  have h2: "connection_factory two_backends ''duckdb'' mongo_heap = (duck_heap, Inr 0)"
    by (simp add: factory_eval)
  have h3: "two_backends ''duckdb''
      = Some [''data_path'' \<mapsto> CStr ''/data/base.db'', ''factor_path'' \<mapsto> CStr ''/data/factor.db'']"
    by (simp add: two_backends_def)
  from connection_singleton [OF h0 h1 h2 h3] h0 h1 h2
  show ?thesis by (simp add: getd_def mongo_heap_def)
qed

end
